theory Spec2Isabelle
  imports Main "HOL-Library.Word" "HOL-Library.Sublist"
begin

unbundle bit_operations_syntax

section \<open>Output driver resolution of the GDAL utilities (apps/commonutils.cpp)\<close>

text \<open>
  The theory embeds \<^verbatim>\<open>DoesDriverHandleExtension\<close>, \<^verbatim>\<open>GetOutputDriversFor\<close> and
  \<^verbatim>\<open>GetOutputDriverForRaster\<close> of \<^verbatim>\<open>apps/commonutils.cpp\<close>. The driver manager and
  the error facility are global in the C++; here they are the two fields of an explicit
  state that every function receives. Strings are byte lists without the terminating NUL.
\<close>

subsection \<open>Strings: the helpers of cpl\_port.h, cpl\_string.h and cpl\_path.cpp\<close>

definition islower :: "char \<Rightarrow> bool" where
  "islower c = (97 \<le> (of_char c :: nat) \<and> (of_char c :: nat) \<le> 122)"

definition isupper :: "char \<Rightarrow> bool" where
  "isupper c = (65 \<le> (of_char c :: nat) \<and> (of_char c :: nat) \<le> 90)"

text \<open>
  ASCII case mapping: the two cases of a letter differ in bit 5 (value 32) only, so
  \<open>toupper\<close> clears that bit of a lower-case letter and \<open>tolower\<close> sets it in an
  upper-case one. Every other byte is left alone.
\<close>

fun toupper :: "char \<Rightarrow> char" where
  "toupper (Char b0 b1 b2 b3 b4 b5 b6 b7) =
     (if islower (Char b0 b1 b2 b3 b4 b5 b6 b7) then Char b0 b1 b2 b3 b4 False b6 b7
      else Char b0 b1 b2 b3 b4 b5 b6 b7)"

fun tolower :: "char \<Rightarrow> char" where
  "tolower (Char b0 b1 b2 b3 b4 b5 b6 b7) =
     (if isupper (Char b0 b1 b2 b3 b4 b5 b6 b7) then Char b0 b1 b2 b3 b4 True b6 b7
      else Char b0 b1 b2 b3 b4 b5 b6 b7)"

text \<open>
  Modelled from the spec: the macros \<^verbatim>\<open>EQUAL\<close> and \<^verbatim>\<open>STARTS_WITH_CI\<close> come from
  cpl\_port.h, which is outside the file verified here. The spec calls the comparisons made
  with them case-insensitive equality and case-insensitive literal prefix;
  \<^verbatim>\<open>EQUAL(a,b)\<close> is \<^verbatim>\<open>strcasecmp(a,b) == 0\<close> and \<^verbatim>\<open>STARTS_WITH_CI(a,b)\<close> is
  \<^verbatim>\<open>strncasecmp(a,b,strlen(b)) == 0\<close>.
\<close>

definition EQUAL :: "string \<Rightarrow> string \<Rightarrow> bool" where
  "EQUAL a b = (map toupper a = map toupper b)"

definition STARTS_WITH_CI :: "string \<Rightarrow> string \<Rightarrow> bool" where
  "STARTS_WITH_CI a b = (length b \<le> length a \<and> EQUAL (take (length b) a) b)"

text \<open>
  \<^verbatim>\<open>CPLString::endsWith\<close> is declared in cpl\_string.h, outside the file verified here.
  \<^verbatim>\<open>CPLString\<close> derives from \<^verbatim>\<open>std::string\<close> and the method is its byte-wise suffix
  test: false when the suffix is longer than the string, otherwise the tail of that length
  is compared with \<^verbatim>\<open>==\<close>. The callers rely on that: lines 76-77 and 82-83 call it
  once for the lower-case and once for the upper-case spelling, next to an \<^verbatim>\<open>EQUAL\<close>
  for the comparison that is meant to ignore case.
\<close>

definition endsWith :: "string \<Rightarrow> string \<Rightarrow> bool" where
  "endsWith s osStr =
     (if length s < length osStr then False
      else drop (length s - length osStr) s = osStr)"

text \<open>
  Modelled from the spec: \<^verbatim>\<open>CPLGetExtension\<close> is defined in port/cpl\_path.cpp, outside
  the file verified here. Section 4.1 of the spec describes its result as the conventional
  last dot segment of the filename, lowercased, and empty when the filename has no
  extractable extension. The filename is what follows the last path separator.
\<close>

definition isPathSep :: "char \<Rightarrow> bool" where
  "isPathSep c = (c = CHR ''/'' \<or> c = CHR 0x5C)"

definition CPLGetFilename :: "string \<Rightarrow> string" where
  "CPLGetFilename p = rev (takeWhile (\<lambda>c. \<not> isPathSep c) (rev p))"

definition CPLGetExtension :: "string \<Rightarrow> string" where
  "CPLGetExtension pszFullFilename =
     (let name = CPLGetFilename pszFullFilename
      in if CHR ''.'' \<in> set name
         then map tolower (rev (takeWhile (\<lambda>c. c \<noteq> CHR ''.'') (rev name)))
         else [])"

subsection \<open>The driver registry and the diagnostic sinks\<close>

text \<open>
  Modelled from the spec: a driver handle is read through \<^verbatim>\<open>GDALGetMetadataItem\<close> and
  \<^verbatim>\<open>GDALGetDriverShortName\<close> only (gdal.h, outside the file verified here). The
  capability items are tested against \<^verbatim>\<open>nullptr\<close>, so a boolean says whether the item
  is set. \<open>DMD_EXTENSIONS\<close> is \<open>None\<close> when the item is absent and otherwise holds the
  tokens that \<^verbatim>\<open>CSLTokenizeString\<close> returns for it, in their order;
  \<open>DMD_CONNECTION_PREFIX\<close> is the optional prefix.
\<close>

record GDALDriver =
  ShortName :: string
  DCAP_CREATE :: bool
  DCAP_CREATECOPY :: bool
  DCAP_RASTER :: bool
  DCAP_VECTOR :: bool
  DCAP_VECTOR_TRANSLATE_FROM :: bool
  DMD_EXTENSIONS :: "string list option"
  DMD_CONNECTION_PREFIX :: "string option"

datatype CPLErr = CE_None | CE_Debug | CE_Warning | CE_Failure | CE_Fatal

datatype diag = Error CPLErr nat string | Debug string string

text \<open>
  The state the functions run in: the registered drivers in registration order
  (\<^verbatim>\<open>GDALGetDriverCount\<close>, \<^verbatim>\<open>GDALGetDriver(i)\<close>) and everything handed to the
  diagnostic sinks so far, oldest first.
\<close>

record world =
  registry :: "GDALDriver list"
  sink :: "diag list"

text \<open>
  Modelled from the spec: \<^verbatim>\<open>CPLError\<close> and \<^verbatim>\<open>CPLDebug\<close> (cpl\_error.h) are the
  write-only warning and debug sinks of section 6. A call appends one entry; the format
  string is expanded by the caller below.
\<close>

definition CPLE_AppDefined :: nat where
  "CPLE_AppDefined = 1"

definition CPLError :: "CPLErr \<Rightarrow> nat \<Rightarrow> string \<Rightarrow> world \<Rightarrow> world" where
  "CPLError eErrClass err_no msg w = w\<lparr>sink := sink w @ [Error eErrClass err_no msg]\<rparr>"

definition CPLDebug :: "string \<Rightarrow> string \<Rightarrow> world \<Rightarrow> world" where
  "CPLDebug category msg w = w\<lparr>sink := sink w @ [Debug category msg]\<rparr>"

text \<open>The entries a call has added, given the state before and the state after it.\<close>

definition emitted :: "world \<Rightarrow> world \<Rightarrow> diag list" where
  "emitted w w' = drop (length (sink w)) (sink w')"

text \<open>
  Modelled from the spec: the request is a bitmask with one bit for raster and one for
  vector output. \<^verbatim>\<open>GDAL_OF_RASTER\<close> and \<^verbatim>\<open>GDAL_OF_VECTOR\<close> are macros of gdal.h
  (0x02 and 0x04 there); \<^verbatim>\<open>nFlagRasterVector\<close> is a C \<^verbatim>\<open>int\<close>.
\<close>

definition GDAL_OF_RASTER :: "32 word" where
  "GDAL_OF_RASTER = 0x02"

definition GDAL_OF_VECTOR :: "32 word" where
  "GDAL_OF_VECTOR = 0x04"

subsection \<open>DoesDriverHandleExtension (lines 44-63)\<close>

text \<open>The loop over the tokens, left at the first token that \<^verbatim>\<open>EQUAL\<close> accepts.\<close>

fun tokenLoop :: "string \<Rightarrow> string list \<Rightarrow> bool" where
  "tokenLoop pszExt [] = False"
| "tokenLoop pszExt (tok # papszTokens) =
     (if EQUAL pszExt tok then True else tokenLoop pszExt papszTokens)"

definition DoesDriverHandleExtension :: "GDALDriver \<Rightarrow> string \<Rightarrow> bool" where
  "DoesDriverHandleExtension hDriver pszExt =
     (case DMD_EXTENSIONS hDriver of
        None \<Rightarrow> False
      | Some papszTokens \<Rightarrow> tokenLoop pszExt papszTokens)"

subsection \<open>GetOutputDriversFor (lines 69-140)\<close>

text \<open>Lines 74-86: the extension the drivers are matched against.\<close>

definition osExtOf :: "string \<Rightarrow> string" where
  "osExtOf pszDestFilename =
     (let osExt = CPLGetExtension pszDestFilename
      in if EQUAL osExt ''zip'' \<and>
            (endsWith pszDestFilename ''.shp.zip'' \<or> endsWith pszDestFilename ''.SHP.ZIP'')
         then ''shp.zip''
         else if EQUAL osExt ''zip'' \<and>
            (endsWith pszDestFilename ''.gpkg.zip'' \<or> endsWith pszDestFilename ''.GPKG.ZIP'')
         then ''gpkg.zip''
         else osExt)"

text \<open>Lines 91-110: the value of \<^verbatim>\<open>bOk\<close> for one driver.\<close>

definition bOk :: "GDALDriver \<Rightarrow> 32 word \<Rightarrow> bool" where
  "bOk hDriver nFlagRasterVector =
     (if (DCAP_CREATE hDriver \<or> DCAP_CREATECOPY hDriver) \<and>
         (((nFlagRasterVector AND GDAL_OF_RASTER) \<noteq> 0 \<and> DCAP_RASTER hDriver) \<or>
          ((nFlagRasterVector AND GDAL_OF_VECTOR) \<noteq> 0 \<and> DCAP_VECTOR hDriver))
      then True
      else if DCAP_VECTOR_TRANSLATE_FROM hDriver \<and> (nFlagRasterVector AND GDAL_OF_VECTOR) \<noteq> 0
      then True
      else False)"

text \<open>
  Lines 88-127: the loop over the drivers, in registration order; \<open>aoDriverList\<close> is the
  vector the names are pushed to.
\<close>

fun driverLoop ::
  "GDALDriver list \<Rightarrow> string \<Rightarrow> string \<Rightarrow> 32 word \<Rightarrow> string list \<Rightarrow> string list" where
  "driverLoop [] pszDestFilename osExt nFlagRasterVector aoDriverList = aoDriverList"
| "driverLoop (hDriver # drivers) pszDestFilename osExt nFlagRasterVector aoDriverList =
     driverLoop drivers pszDestFilename osExt nFlagRasterVector
       (if bOk hDriver nFlagRasterVector then
          (if osExt \<noteq> [] \<and> DoesDriverHandleExtension hDriver osExt
           then aoDriverList @ [ShortName hDriver]
           else (case DMD_CONNECTION_PREFIX hDriver of
                   None \<Rightarrow> aoDriverList
                 | Some pszPrefix \<Rightarrow>
                     if STARTS_WITH_CI pszDestFilename pszPrefix
                     then aoDriverList @ [ShortName hDriver]
                     else aoDriverList))
        else aoDriverList)"

text \<open>The driver list as it stands at line 128, before the netCDF rule.\<close>

definition matchedDrivers :: "world \<Rightarrow> string \<Rightarrow> 32 word \<Rightarrow> string list" where
  "matchedDrivers w pszDestFilename nFlagRasterVector =
     driverLoop (registry w) pszDestFilename (osExtOf pszDestFilename) nFlagRasterVector []"

definition GetOutputDriversFor :: "world \<Rightarrow> string \<Rightarrow> 32 word \<Rightarrow> string list" where
  "GetOutputDriversFor w pszDestFilename nFlagRasterVector =
     (let osExt = osExtOf pszDestFilename;
          aoDriverList = matchedDrivers w pszDestFilename nFlagRasterVector
      in if EQUAL osExt ''nc'' \<and> length aoDriverList = 2 \<and>
            EQUAL (aoDriverList ! 0) ''GMT'' \<and> EQUAL (aoDriverList ! 1) ''NETCDF''
         then [''NETCDF'', ''GMT'']
         else aoDriverList)"

subsection \<open>GetOutputDriverForRaster (lines 146-178)\<close>

text \<open>Lines 176-177: the debug message and the return of \<^verbatim>\<open>osFormat\<close>.\<close>

definition usingDriver :: "string \<Rightarrow> world \<Rightarrow> string \<times> world" where
  "usingDriver osFormat w = (osFormat, CPLDebug ''GDAL'' (''Using '' @ osFormat @ '' driver'') w)"

definition GetOutputDriverForRaster :: "string \<Rightarrow> world \<Rightarrow> string \<times> world" where
  "GetOutputDriverForRaster pszDestFilename w =
     (let aoDrivers = GetOutputDriversFor w pszDestFilename GDAL_OF_RASTER;
          osExt = CPLGetExtension pszDestFilename
      in if aoDrivers = [] then
           (if osExt = [] then usingDriver ''GTiff'' w
            else ([], CPLError CE_Failure CPLE_AppDefined
                        (''Cannot guess driver for '' @ pszDestFilename) w))
         else
           (let w' = (if length aoDrivers > 1 \<and>
                         \<not> (aoDrivers ! 0 = ''GTiff'' \<and> aoDrivers ! 1 = ''COG'')
                      then CPLError CE_Warning CPLE_AppDefined
                             (''Several drivers matching '' @ osExt @
                              '' extension. Using '' @ aoDrivers ! 0) w
                      else w)
            in usingDriver (aoDrivers ! 0) w'))"

subsection \<open>The matching rule in the words of the specification\<close>

text \<open>
  Section 4.2 of the spec states when a driver is matched: a capability condition (a) and
  a destination condition (b). The three definitions below follow the spec's words; the
  theorems compare them with the loop of lines 88-127.
\<close>

definition RasterRequested :: "32 word \<Rightarrow> bool" where
  "RasterRequested nFlagRasterVector = ((nFlagRasterVector AND GDAL_OF_RASTER) \<noteq> 0)"

definition VectorRequested :: "32 word \<Rightarrow> bool" where
  "VectorRequested nFlagRasterVector = ((nFlagRasterVector AND GDAL_OF_VECTOR) \<noteq> 0)"

definition ExtensionSet :: "GDALDriver \<Rightarrow> string set" where
  "ExtensionSet d = (case DMD_EXTENSIONS d of None \<Rightarrow> {} | Some toks \<Rightarrow> set toks)"

definition specCapability :: "32 word \<Rightarrow> GDALDriver \<Rightarrow> bool" where
  "specCapability flags d =
     (((DCAP_CREATE d \<or> DCAP_CREATECOPY d) \<and>
       ((RasterRequested flags \<and> DCAP_RASTER d) \<or> (VectorRequested flags \<and> DCAP_VECTOR d))) \<or>
      (VectorRequested flags \<and> DCAP_VECTOR_TRANSLATE_FROM d))"

definition specDestination :: "string \<Rightarrow> string \<Rightarrow> GDALDriver \<Rightarrow> bool" where
  "specDestination token dest d =
     ((token \<noteq> [] \<and> (\<exists>e \<in> ExtensionSet d. EQUAL token e)) \<or>
      (case DMD_CONNECTION_PREFIX d of
         None \<Rightarrow> False
       | Some pfx \<Rightarrow> STARTS_WITH_CI dest pfx))"



text \<open>The condition of lines 131-132, on the list of line 128.\<close>

definition netcdfRule :: "world \<Rightarrow> string \<Rightarrow> 32 word \<Rightarrow> bool" where
  "netcdfRule w dest flags =
     (EQUAL (osExtOf dest) ''nc'' \<and>
      (case matchedDrivers w dest flags of
         [a, b] \<Rightarrow> EQUAL a ''GMT'' \<and> EQUAL b ''NETCDF''
       | _ \<Rightarrow> False))"

subsection \<open>Example registries\<close>

definition rasterDriver :: "string \<Rightarrow> string list \<Rightarrow> GDALDriver" where
  "rasterDriver name exts =
     \<lparr>ShortName = name, DCAP_CREATE = True, DCAP_CREATECOPY = True, DCAP_RASTER = True,
      DCAP_VECTOR = False, DCAP_VECTOR_TRANSLATE_FROM = False,
      DMD_EXTENSIONS = Some exts, DMD_CONNECTION_PREFIX = None\<rparr>"

definition prefixDriver :: "string \<Rightarrow> string \<Rightarrow> GDALDriver" where
  "prefixDriver name pfx =
     \<lparr>ShortName = name, DCAP_CREATE = False, DCAP_CREATECOPY = True, DCAP_RASTER = True,
      DCAP_VECTOR = False, DCAP_VECTOR_TRANSLATE_FROM = False,
      DMD_EXTENSIONS = None, DMD_CONNECTION_PREFIX = Some pfx\<rparr>"

definition worldOf :: "GDALDriver list \<Rightarrow> world" where
  "worldOf drivers = \<lparr>registry = drivers, sink = []\<rparr>"

section \<open>Auxiliary facts\<close>

lemmas eval_defs = GetOutputDriversFor_def matchedDrivers_def osExtOf_def CPLGetExtension_def
  CPLGetFilename_def isPathSep_def isupper_def islower_def EQUAL_def endsWith_def
  bOk_def GDAL_OF_RASTER_def GDAL_OF_VECTOR_def DoesDriverHandleExtension_def
  STARTS_WITH_CI_def rasterDriver_def prefixDriver_def worldOf_def Let_def

subsection \<open>Strings\<close>

lemma endsWith_iff: "endsWith s t \<longleftrightarrow> (\<exists>p. s = p @ t)"
proof
  assume "endsWith s t"
  then have d: "drop (length s - length t) s = t"
    by (auto simp: endsWith_def split: if_splits)
  have "s = take (length s - length t) s @ drop (length s - length t) s"
    by simp
  with d show "\<exists>p. s = p @ t"
    by metis
next
  assume "\<exists>p. s = p @ t"
  then show "endsWith s t"
    by (auto simp: endsWith_def)
qed

lemma CPLGetExtension_zip:
  "CPLGetExtension (p @ ''.shp.zip'') = ''zip''"
  "CPLGetExtension (p @ ''.SHP.ZIP'') = ''zip''"
  "CPLGetExtension (p @ ''.gpkg.zip'') = ''zip''"
  "CPLGetExtension (p @ ''.GPKG.ZIP'') = ''zip''"
  by (simp_all add: CPLGetExtension_def CPLGetFilename_def isPathSep_def isupper_def)

lemma not_shp_if_gpkg:
  "\<not> endsWith (p @ ''.gpkg.zip'') ''.shp.zip''"
  "\<not> endsWith (p @ ''.gpkg.zip'') ''.SHP.ZIP''"
  "\<not> endsWith (p @ ''.GPKG.ZIP'') ''.shp.zip''"
  "\<not> endsWith (p @ ''.GPKG.ZIP'') ''.SHP.ZIP''"
  by (simp_all add: endsWith_def)


subsection \<open>The loops\<close>

lemma tokenLoop_iff: "tokenLoop e ts \<longleftrightarrow> (\<exists>t \<in> set ts. EQUAL e t)"
  by (induction ts) auto

lemma DoesDriverHandleExtension_iff:
  "DoesDriverHandleExtension d e \<longleftrightarrow> (\<exists>t \<in> ExtensionSet d. EQUAL e t)"
  by (simp add: DoesDriverHandleExtension_def ExtensionSet_def tokenLoop_iff
      split: option.splits)

lemma bOk_spec: "bOk d flags = specCapability flags d"
  by (auto simp: bOk_def specCapability_def RasterRequested_def VectorRequested_def)

lemma driverLoop_filter:
  "driverLoop ds dest ext flags acc =
     acc @ map ShortName
       (filter (\<lambda>d. specCapability flags d \<and> specDestination ext dest d) ds)"
proof (induction ds arbitrary: acc)
  case Nil
  show ?case by simp
next
  case (Cons d ds)
  show ?case
    by (simp add: Cons.IH bOk_spec specDestination_def DoesDriverHandleExtension_iff
        split: option.splits)
qed

lemma matchedDrivers_filter:
  "matchedDrivers w dest flags =
     map ShortName
       (filter (\<lambda>d. specCapability flags d \<and> specDestination (osExtOf dest) dest d)
          (registry w))"
  by (simp add: matchedDrivers_def driverLoop_filter)

subsection \<open>The netCDF rule\<close>

lemma netcdfRule_alt:
  "netcdfRule w dest flags \<longleftrightarrow>
     EQUAL (osExtOf dest) ''nc'' \<and> length (matchedDrivers w dest flags) = 2 \<and>
     EQUAL (matchedDrivers w dest flags ! 0) ''GMT'' \<and>
     EQUAL (matchedDrivers w dest flags ! 1) ''NETCDF''"
  by (auto simp: netcdfRule_def split: list.splits)

lemma GetOutputDriversFor_cases:
  "GetOutputDriversFor w dest flags =
     (if netcdfRule w dest flags then [''NETCDF'', ''GMT'']
      else matchedDrivers w dest flags)"
  by (simp add: GetOutputDriversFor_def Let_def netcdfRule_alt)

lemma netcdfRule_changes:
  assumes "netcdfRule w dest flags"
  shows "matchedDrivers w dest flags \<noteq> [''NETCDF'', ''GMT'']"
proof
  assume eq: "matchedDrivers w dest flags = [''NETCDF'', ''GMT'']"
  from assms have "EQUAL (matchedDrivers w dest flags ! 0) ''GMT''"
    by (simp add: netcdfRule_alt)
  with eq have "EQUAL ''NETCDF'' ''GMT''"
    by simp
  then show False
    by (simp add: EQUAL_def islower_def)
qed


subsection \<open>The cases of GetOutputDriverForRaster\<close>

lemma raster_default:
  assumes "GetOutputDriversFor w dest GDAL_OF_RASTER = []" and "CPLGetExtension dest = []"
  shows "GetOutputDriverForRaster dest w =
           (''GTiff'', w\<lparr>sink := sink w @ [Debug ''GDAL'' ''Using GTiff driver'']\<rparr>)"
  using assms by (simp add: GetOutputDriverForRaster_def usingDriver_def CPLDebug_def)

lemma raster_failure:
  assumes "GetOutputDriversFor w dest GDAL_OF_RASTER = []" and "CPLGetExtension dest \<noteq> []"
  shows "GetOutputDriverForRaster dest w =
           ([], w\<lparr>sink := sink w @
                   [Error CE_Failure CPLE_AppDefined (''Cannot guess driver for '' @ dest)]\<rparr>)"
  using assms by (simp add: GetOutputDriverForRaster_def CPLError_def)

lemma raster_quiet:
  assumes "GetOutputDriversFor w dest GDAL_OF_RASTER = ds" and "ds \<noteq> []"
    and "length ds \<le> 1 \<or> (ds ! 0 = ''GTiff'' \<and> ds ! 1 = ''COG'')"
  shows "GetOutputDriverForRaster dest w =
           (ds ! 0, w\<lparr>sink := sink w @ [Debug ''GDAL'' (''Using '' @ ds ! 0 @ '' driver'')]\<rparr>)"
  using assms
  by (auto simp add: GetOutputDriverForRaster_def usingDriver_def CPLDebug_def Let_def)

lemma raster_warning:
  assumes "GetOutputDriversFor w dest GDAL_OF_RASTER = ds" and "1 < length ds"
    and "\<not> (ds ! 0 = ''GTiff'' \<and> ds ! 1 = ''COG'')"
  shows "GetOutputDriverForRaster dest w =
           (ds ! 0, w\<lparr>sink := sink w @
               [Error CE_Warning CPLE_AppDefined
                  (''Several drivers matching '' @ CPLGetExtension dest @
                   '' extension. Using '' @ ds ! 0),
                Debug ''GDAL'' (''Using '' @ ds ! 0 @ '' driver'')]\<rparr>)"
proof -
  from assms(2) have "ds \<noteq> []"
    by auto
  with assms show ?thesis
    by (simp add: GetOutputDriverForRaster_def usingDriver_def CPLDebug_def CPLError_def
        Let_def)
qed

lemma emitted_append: "emitted w (w\<lparr>sink := sink w @ es\<rparr>) = es"
  by (simp add: emitted_def)

text \<open>What one call adds to the sinks, in all four cases at once.\<close>

lemma raster_emitted:
  assumes "GetOutputDriversFor w dest GDAL_OF_RASTER = ds"
  shows "emitted w (snd (GetOutputDriverForRaster dest w)) =
     (if ds = [] then
        (if CPLGetExtension dest = [] then [Debug ''GDAL'' ''Using GTiff driver'']
         else [Error CE_Failure CPLE_AppDefined (''Cannot guess driver for '' @ dest)])
      else
        (if 1 < length ds \<and> \<not> (ds ! 0 = ''GTiff'' \<and> ds ! 1 = ''COG'')
         then [Error CE_Warning CPLE_AppDefined
                 (''Several drivers matching '' @ CPLGetExtension dest @
                  '' extension. Using '' @ ds ! 0)]
         else []) @ [Debug ''GDAL'' (''Using '' @ ds ! 0 @ '' driver'')])"
proof (cases "ds = []")
  case True
  with assms show ?thesis
    by (cases "CPLGetExtension dest = []")
      (simp_all add: raster_default raster_failure emitted_append)
next
  case False
  show ?thesis
  proof (cases "1 < length ds \<and> \<not> (ds ! 0 = ''GTiff'' \<and> ds ! 1 = ''COG'')")
    case True
    with assms False show ?thesis
      by (simp add: raster_warning emitted_append)
  next
    case no: False
    then have "length ds \<le> 1 \<or> (ds ! 0 = ''GTiff'' \<and> ds ! 1 = ''COG'')"
      by auto
    from raster_quiet [OF assms False this] no False show ?thesis
      by (simp add: emitted_append)
  qed
qed

lemma raster_result:
  assumes "GetOutputDriversFor w dest GDAL_OF_RASTER = ds"
  shows "fst (GetOutputDriverForRaster dest w) =
     (if ds = [] then (if CPLGetExtension dest = [] then ''GTiff'' else []) else ds ! 0)"
  using assms
  by (simp add: GetOutputDriverForRaster_def usingDriver_def Let_def)

lemma raster_world:
  "registry (snd (GetOutputDriverForRaster dest w)) = registry w"
  "sink (snd (GetOutputDriverForRaster dest w)) =
     sink w @ emitted w (snd (GetOutputDriverForRaster dest w))"
  by (simp_all add: GetOutputDriverForRaster_def usingDriver_def CPLDebug_def CPLError_def
      emitted_def Let_def)

section \<open>The claims about GetOutputDriverForRaster\<close>

text \<open>
  C1. Let the driver list of \<open>GetOutputDriversFor\<close> for raster output be empty. If the
  destination has no extension, \<open>GetOutputDriverForRaster\<close> selects \<open>GTiff\<close>; if it has
  one, the call reports a \<open>CE_Failure\<close> error ("Cannot guess driver for ...") and returns
  the empty name. A \<open>CE_Failure\<close> error is reported in exactly that case: empty driver
  list and non-empty extension.
\<close>

theorem C1_default_or_failure:
  "(GetOutputDriversFor w dest GDAL_OF_RASTER = [] \<and> CPLGetExtension dest = [] \<longrightarrow>
      fst (GetOutputDriverForRaster dest w) = ''GTiff'') \<and>
   (GetOutputDriversFor w dest GDAL_OF_RASTER = [] \<and> CPLGetExtension dest \<noteq> [] \<longrightarrow>
      GetOutputDriverForRaster dest w =
        ([], CPLError CE_Failure CPLE_AppDefined (''Cannot guess driver for '' @ dest) w)) \<and>
   ((\<exists>n m. Error CE_Failure n m \<in> set (emitted w (snd (GetOutputDriverForRaster dest w)))) \<longleftrightarrow>
      GetOutputDriversFor w dest GDAL_OF_RASTER = [] \<and> CPLGetExtension dest \<noteq> [])"
proof (intro conjI impI)
  assume "GetOutputDriversFor w dest GDAL_OF_RASTER = [] \<and> CPLGetExtension dest = []"
  then show "fst (GetOutputDriverForRaster dest w) = ''GTiff''"
    by (simp add: raster_default)
next
  assume "GetOutputDriversFor w dest GDAL_OF_RASTER = [] \<and> CPLGetExtension dest \<noteq> []"
  then show "GetOutputDriverForRaster dest w =
      ([], CPLError CE_Failure CPLE_AppDefined (''Cannot guess driver for '' @ dest) w)"
    by (simp add: raster_failure CPLError_def)
next
  show "(\<exists>n m. Error CE_Failure n m \<in> set (emitted w (snd (GetOutputDriverForRaster dest w)))) \<longleftrightarrow>
      GetOutputDriversFor w dest GDAL_OF_RASTER = [] \<and> CPLGetExtension dest \<noteq> []"
    by (simp add: raster_emitted [OF refl])
qed

theorem C1_default_or_failure_witness:
  "fst (GetOutputDriverForRaster ''noext'' (worldOf [])) = ''GTiff'' \<and>
   GetOutputDriverForRaster ''out.xyz'' (worldOf []) =
     ([], CPLError CE_Failure CPLE_AppDefined ''Cannot guess driver for out.xyz'' (worldOf [])) \<and>
   (\<exists>n m. Error CE_Failure n m \<in>
      set (emitted (worldOf []) (snd (GetOutputDriverForRaster ''out.xyz'' (worldOf [])))))"
proof -
  have a: "GetOutputDriversFor (worldOf []) ''noext'' GDAL_OF_RASTER = [] \<and>
           CPLGetExtension ''noext'' = []"
    by (simp add: eval_defs)
  have b: "GetOutputDriversFor (worldOf []) ''out.xyz'' GDAL_OF_RASTER = [] \<and>
           CPLGetExtension ''out.xyz'' \<noteq> []"
    by (simp add: eval_defs)
  have c: "fst (GetOutputDriverForRaster ''noext'' (worldOf [])) = ''GTiff''"
    using a C1_default_or_failure [of "worldOf []" "''noext''"] by blast
  have d: "GetOutputDriverForRaster ''out.xyz'' (worldOf []) =
      ([], CPLError CE_Failure CPLE_AppDefined ''Cannot guess driver for out.xyz'' (worldOf []))"
    using b C1_default_or_failure [of "worldOf []" "''out.xyz''"] by simp
  have e: "\<exists>n m. Error CE_Failure n m \<in>
      set (emitted (worldOf []) (snd (GetOutputDriverForRaster ''out.xyz'' (worldOf []))))"
    using b C1_default_or_failure [of "worldOf []" "''out.xyz''"] by blast
  from c d e show ?thesis
    by (intro conjI)
qed

text \<open>
  C5. Let the driver list for raster output have more than one entry. If its first two
  entries are exactly \<open>GTiff\<close> and \<open>COG\<close>, the call returns \<open>GTiff\<close> and reports no
  warning: the debug message is all it emits. Otherwise it returns the first entry and
  reports exactly one \<open>CE_Warning\<close> naming that entry, followed by the debug message.
  On every path but the failure one (empty list, non-empty extension) the last thing
  emitted is the debug message "Using <driver> driver" for the returned driver.
\<close>

theorem C5_several_drivers:
  assumes "GetOutputDriversFor w dest GDAL_OF_RASTER = ds"
  shows "(1 < length ds \<and> ds ! 0 = ''GTiff'' \<and> ds ! 1 = ''COG'' \<longrightarrow>
            fst (GetOutputDriverForRaster dest w) = ''GTiff'' \<and>
            emitted w (snd (GetOutputDriverForRaster dest w)) =
              [Debug ''GDAL'' ''Using GTiff driver'']) \<and>
         (1 < length ds \<and> \<not> (ds ! 0 = ''GTiff'' \<and> ds ! 1 = ''COG'') \<longrightarrow>
            fst (GetOutputDriverForRaster dest w) = ds ! 0 \<and>
            emitted w (snd (GetOutputDriverForRaster dest w)) =
              [Error CE_Warning CPLE_AppDefined
                 (''Several drivers matching '' @ CPLGetExtension dest @
                  '' extension. Using '' @ ds ! 0),
               Debug ''GDAL'' (''Using '' @ ds ! 0 @ '' driver'')]) \<and>
         (\<not> (ds = [] \<and> CPLGetExtension dest \<noteq> []) \<longrightarrow>
            emitted w (snd (GetOutputDriverForRaster dest w)) \<noteq> [] \<and>
            last (emitted w (snd (GetOutputDriverForRaster dest w))) =
              Debug ''GDAL'' (''Using '' @ fst (GetOutputDriverForRaster dest w) @ '' driver''))"
proof (intro conjI impI)
  assume h: "1 < length ds \<and> ds ! 0 = ''GTiff'' \<and> ds ! 1 = ''COG''"
  then have "ds \<noteq> []"
    by auto
  with h show "fst (GetOutputDriverForRaster dest w) = ''GTiff''"
    by (simp add: raster_result [OF assms])
  from h \<open>ds \<noteq> []\<close>
  show "emitted w (snd (GetOutputDriverForRaster dest w)) = [Debug ''GDAL'' ''Using GTiff driver'']"
    by (simp add: raster_emitted [OF assms])
next
  assume h: "1 < length ds \<and> \<not> (ds ! 0 = ''GTiff'' \<and> ds ! 1 = ''COG'')"
  then have ne: "ds \<noteq> []"
    by auto
  then show "fst (GetOutputDriverForRaster dest w) = ds ! 0"
    by (simp add: raster_result [OF assms])
  from h ne
  show "emitted w (snd (GetOutputDriverForRaster dest w)) =
      [Error CE_Warning CPLE_AppDefined
         (''Several drivers matching '' @ CPLGetExtension dest @ '' extension. Using '' @ ds ! 0),
       Debug ''GDAL'' (''Using '' @ ds ! 0 @ '' driver'')]"
    by (simp add: raster_emitted [OF assms])
next
  assume "\<not> (ds = [] \<and> CPLGetExtension dest \<noteq> [])"
  then show "emitted w (snd (GetOutputDriverForRaster dest w)) \<noteq> []"
    by (simp add: raster_emitted [OF assms])
next
  assume "\<not> (ds = [] \<and> CPLGetExtension dest \<noteq> [])"
  then show "last (emitted w (snd (GetOutputDriverForRaster dest w))) =
      Debug ''GDAL'' (''Using '' @ fst (GetOutputDriverForRaster dest w) @ '' driver'')"
    by (auto simp add: raster_emitted [OF assms] raster_result [OF assms])
qed

theorem C5_several_drivers_witness:
  "GetOutputDriversFor
     (worldOf [rasterDriver ''GTiff'' [''tif'', ''tiff''], rasterDriver ''COG'' [''tif'']])
     ''out.tif'' GDAL_OF_RASTER = [''GTiff'', ''COG''] \<and>
   GetOutputDriverForRaster ''out.tif''
     (worldOf [rasterDriver ''GTiff'' [''tif'', ''tiff''], rasterDriver ''COG'' [''tif'']]) =
     (''GTiff'',
      CPLDebug ''GDAL'' ''Using GTiff driver''
        (worldOf [rasterDriver ''GTiff'' [''tif'', ''tiff''], rasterDriver ''COG'' [''tif'']])) \<and>
   GetOutputDriversFor
     (worldOf [rasterDriver ''JPEG'' [''jpg''], rasterDriver ''MBTiles'' [''jpg'']])
     ''out.jpg'' GDAL_OF_RASTER = [''JPEG'', ''MBTiles''] \<and>
   fst (GetOutputDriverForRaster ''out.jpg''
     (worldOf [rasterDriver ''JPEG'' [''jpg''], rasterDriver ''MBTiles'' [''jpg'']])) = ''JPEG'' \<and>
   emitted (worldOf [rasterDriver ''JPEG'' [''jpg''], rasterDriver ''MBTiles'' [''jpg'']])
     (snd (GetOutputDriverForRaster ''out.jpg''
        (worldOf [rasterDriver ''JPEG'' [''jpg''], rasterDriver ''MBTiles'' [''jpg'']]))) =
     [Error CE_Warning CPLE_AppDefined ''Several drivers matching jpg extension. Using JPEG'',
      Debug ''GDAL'' ''Using JPEG driver'']"
proof -
  let ?w1 = "worldOf [rasterDriver ''GTiff'' [''tif'', ''tiff''], rasterDriver ''COG'' [''tif'']]"
  let ?w2 = "worldOf [rasterDriver ''JPEG'' [''jpg''], rasterDriver ''MBTiles'' [''jpg'']]"
  have a: "GetOutputDriversFor ?w1 ''out.tif'' GDAL_OF_RASTER = [''GTiff'', ''COG'']"
    by (simp add: eval_defs)
  have b: "GetOutputDriversFor ?w2 ''out.jpg'' GDAL_OF_RASTER = [''JPEG'', ''MBTiles'']"
    by (simp add: eval_defs)
  have e: "CPLGetExtension ''out.jpg'' = ''jpg''"
    by (simp add: eval_defs)
  have s: "sink ?w1 = []"
    by (simp add: worldOf_def)
  from C5_several_drivers [OF a] have
    "fst (GetOutputDriverForRaster ''out.tif'' ?w1) = ''GTiff'' \<and>
     emitted ?w1 (snd (GetOutputDriverForRaster ''out.tif'' ?w1)) =
       [Debug ''GDAL'' ''Using GTiff driver'']"
    by simp
  then have "GetOutputDriverForRaster ''out.tif'' ?w1 =
      (''GTiff'', CPLDebug ''GDAL'' ''Using GTiff driver'' ?w1)"
    using raster_world [of "''out.tif''" ?w1] s
    by (simp add: prod_eq_iff CPLDebug_def worldOf_def)
  moreover from C5_several_drivers [OF b] e have
    "fst (GetOutputDriverForRaster ''out.jpg'' ?w2) = ''JPEG'' \<and>
     emitted ?w2 (snd (GetOutputDriverForRaster ''out.jpg'' ?w2)) =
       [Error CE_Warning CPLE_AppDefined ''Several drivers matching jpg extension. Using JPEG'',
        Debug ''GDAL'' ''Using JPEG driver'']"
    by simp
  ultimately show ?thesis
    using a b by simp
qed


text \<open>
  C9. As the claim stands (every extension comparison of the file ignores case) it fails
  on the code: the zip suffix tests of lines 76-77 and 82-83 are exact, so \<open>a.SHP.ZIP\<close>
  and \<open>a.SHP.Zip\<close> are matched with different extensions. What holds: the test that
  suppresses the warning compares the two names with \<open>==\<close>, byte for byte, so when the
  driver list has more than one entry and its first two entries equal \<open>GTiff\<close> and
  \<open>COG\<close> up to case only, the warning about several drivers is reported. The
  comparisons made with \<open>EQUAL\<close> ignore case: whether a driver handles an extension does
  not depend on the case of the extension, and the netCDF rule fires for any spelling of
  \<open>nc\<close>, \<open>GMT\<close> and \<open>NETCDF\<close>. The compound zip extensions are used only for a
  filename that ends, byte for byte, in one of the four spellings tested.
\<close>

theorem C9_exact_gtiff_cog:
  "(GetOutputDriversFor w dest GDAL_OF_RASTER = ds \<and> 1 < length ds \<and>
    EQUAL (ds ! 0) ''GTiff'' \<and> EQUAL (ds ! 1) ''COG'' \<and>
    \<not> (ds ! 0 = ''GTiff'' \<and> ds ! 1 = ''COG'') \<longrightarrow>
      emitted w (snd (GetOutputDriverForRaster dest w)) =
        [Error CE_Warning CPLE_AppDefined
           (''Several drivers matching '' @ CPLGetExtension dest @
            '' extension. Using '' @ ds ! 0),
         Debug ''GDAL'' (''Using '' @ ds ! 0 @ '' driver'')]) \<and>
   (EQUAL e e' \<longrightarrow> DoesDriverHandleExtension d e = DoesDriverHandleExtension d e') \<and>
   (EQUAL (osExtOf dest) ''nc'' \<and> matchedDrivers w dest flags = [a, b] \<and>
    EQUAL a ''GMT'' \<and> EQUAL b ''NETCDF'' \<longrightarrow>
      GetOutputDriversFor w dest flags = [''NETCDF'', ''GMT'']) \<and>
   (osExtOf f \<noteq> CPLGetExtension f \<longrightarrow>
      endsWith f ''.shp.zip'' \<or> endsWith f ''.SHP.ZIP'' \<or>
      endsWith f ''.gpkg.zip'' \<or> endsWith f ''.GPKG.ZIP'')"
proof (intro conjI impI)
  assume h: "GetOutputDriversFor w dest GDAL_OF_RASTER = ds \<and> 1 < length ds \<and>
    EQUAL (ds ! 0) ''GTiff'' \<and> EQUAL (ds ! 1) ''COG'' \<and>
    \<not> (ds ! 0 = ''GTiff'' \<and> ds ! 1 = ''COG'')"
  then have "GetOutputDriverForRaster dest w =
      (ds ! 0, w\<lparr>sink := sink w @
         [Error CE_Warning CPLE_AppDefined
            (''Several drivers matching '' @ CPLGetExtension dest @
             '' extension. Using '' @ ds ! 0),
          Debug ''GDAL'' (''Using '' @ ds ! 0 @ '' driver'')]\<rparr>)"
    by (intro raster_warning) simp_all
  then show "emitted w (snd (GetOutputDriverForRaster dest w)) =
      [Error CE_Warning CPLE_AppDefined
         (''Several drivers matching '' @ CPLGetExtension dest @
          '' extension. Using '' @ ds ! 0),
       Debug ''GDAL'' (''Using '' @ ds ! 0 @ '' driver'')]"
    by (simp add: emitted_append)
next
  assume "EQUAL e e'"
  then have "\<And>t. EQUAL e t = EQUAL e' t"
    by (simp add: EQUAL_def)
  then show "DoesDriverHandleExtension d e = DoesDriverHandleExtension d e'"
    by (simp add: DoesDriverHandleExtension_iff)
next
  assume "EQUAL (osExtOf dest) ''nc'' \<and> matchedDrivers w dest flags = [a, b] \<and>
    EQUAL a ''GMT'' \<and> EQUAL b ''NETCDF''"
  then have "netcdfRule w dest flags"
    by (simp add: netcdfRule_def)
  then show "GetOutputDriversFor w dest flags = [''NETCDF'', ''GMT'']"
    by (simp add: GetOutputDriversFor_cases)
next
  assume "osExtOf f \<noteq> CPLGetExtension f"
  then show "endsWith f ''.shp.zip'' \<or> endsWith f ''.SHP.ZIP'' \<or>
      endsWith f ''.gpkg.zip'' \<or> endsWith f ''.GPKG.ZIP''"
    by (auto simp: osExtOf_def Let_def split: if_splits)
qed

theorem C9_exact_gtiff_cog_witness:
  "GetOutputDriversFor
     (worldOf [rasterDriver ''gtiff'' [''tif''], rasterDriver ''cog'' [''tif'']])
     ''out.tif'' GDAL_OF_RASTER = [''gtiff'', ''cog''] \<and>
   emitted (worldOf [rasterDriver ''gtiff'' [''tif''], rasterDriver ''cog'' [''tif'']])
     (snd (GetOutputDriverForRaster ''out.tif''
        (worldOf [rasterDriver ''gtiff'' [''tif''], rasterDriver ''cog'' [''tif'']]))) =
     [Error CE_Warning CPLE_AppDefined ''Several drivers matching tif extension. Using gtiff'',
      Debug ''GDAL'' ''Using gtiff driver''] \<and>
   DoesDriverHandleExtension (rasterDriver ''gtiff'' [''tif'']) ''TIF'' =
     DoesDriverHandleExtension (rasterDriver ''gtiff'' [''tif'']) ''tif'' \<and>
   GetOutputDriversFor
     (worldOf [rasterDriver ''gmt'' [''nc''], rasterDriver ''netCDF'' [''nc'']])
     ''out.nc'' GDAL_OF_RASTER = [''NETCDF'', ''GMT''] \<and>
   osExtOf ''a.SHP.ZIP'' \<noteq> CPLGetExtension ''a.SHP.ZIP'' \<and>
   endsWith ''a.SHP.ZIP'' ''.SHP.ZIP''"
proof -
  have a: "GetOutputDriversFor
      (worldOf [rasterDriver ''gtiff'' [''tif''], rasterDriver ''cog'' [''tif'']])
      ''out.tif'' GDAL_OF_RASTER = [''gtiff'', ''cog'']"
    by (simp add: eval_defs)
  have x: "CPLGetExtension ''out.tif'' = ''tif''"
    by (simp add: eval_defs)
  have h: "1 < length [''gtiff'', ''cog''] \<and>
      EQUAL ([''gtiff'', ''cog''] ! 0) ''GTiff'' \<and> EQUAL ([''gtiff'', ''cog''] ! 1) ''COG'' \<and>
      \<not> ([''gtiff'', ''cog''] ! 0 = ''GTiff'' \<and> [''gtiff'', ''cog''] ! 1 = ''COG'')"
    by (simp add: EQUAL_def islower_def)
  have q: "EQUAL ''TIF'' ''tif''"
    by (simp add: EQUAL_def islower_def)
  have n: "EQUAL (osExtOf ''out.nc'') ''nc'' \<and>
      matchedDrivers (worldOf [rasterDriver ''gmt'' [''nc''], rasterDriver ''netCDF'' [''nc'']])
        ''out.nc'' GDAL_OF_RASTER = [''gmt'', ''netCDF''] \<and>
      EQUAL ''gmt'' ''GMT'' \<and> EQUAL ''netCDF'' ''NETCDF''"
    by (simp add: eval_defs)
  have z: "osExtOf ''a.SHP.ZIP'' \<noteq> CPLGetExtension ''a.SHP.ZIP''"
    by (simp add: eval_defs)
  have w1: "emitted (worldOf [rasterDriver ''gtiff'' [''tif''], rasterDriver ''cog'' [''tif'']])
      (snd (GetOutputDriverForRaster ''out.tif''
         (worldOf [rasterDriver ''gtiff'' [''tif''], rasterDriver ''cog'' [''tif'']]))) =
      [Error CE_Warning CPLE_AppDefined ''Several drivers matching tif extension. Using gtiff'',
       Debug ''GDAL'' ''Using gtiff driver'']"
    using a h x
      C9_exact_gtiff_cog [where w = "worldOf [rasterDriver ''gtiff'' [''tif''], rasterDriver ''cog'' [''tif'']]"
        and dest = "''out.tif''" and ds = "[''gtiff'', ''cog'']"]
    by simp
  have w2: "DoesDriverHandleExtension (rasterDriver ''gtiff'' [''tif'']) ''TIF'' =
      DoesDriverHandleExtension (rasterDriver ''gtiff'' [''tif'']) ''tif''"
    using q C9_exact_gtiff_cog [where e = "''TIF''" and e' = "''tif''"
        and d = "rasterDriver ''gtiff'' [''tif'']"]
    by blast
  have w3: "GetOutputDriversFor
      (worldOf [rasterDriver ''gmt'' [''nc''], rasterDriver ''netCDF'' [''nc'']])
      ''out.nc'' GDAL_OF_RASTER = [''NETCDF'', ''GMT'']"
    using n C9_exact_gtiff_cog [where w = "worldOf [rasterDriver ''gmt'' [''nc''], rasterDriver ''netCDF'' [''nc'']]"
        and dest = "''out.nc''" and flags = GDAL_OF_RASTER and a = "''gmt''" and b = "''netCDF''"]
    by blast
  have w4: "endsWith ''a.SHP.ZIP'' ''.SHP.ZIP''"
    using z C9_exact_gtiff_cog [where f = "''a.SHP.ZIP''"]
    by (simp add: endsWith_def)
  from a w1 w2 w3 z w4 show ?thesis
    by (intro conjI)
qed

theorem C9_zip_suffix_counterexample:
  "EQUAL ''a.SHP.ZIP'' ''a.SHP.Zip'' \<and>
   osExtOf ''a.SHP.ZIP'' = ''shp.zip'' \<and>
   osExtOf ''a.SHP.Zip'' \<noteq> ''shp.zip'' \<and>
   \<not> EQUAL (osExtOf ''a.SHP.ZIP'') (osExtOf ''a.SHP.Zip'')"
  by (simp add: eval_defs)

text \<open>
  C10. On the failure path (empty driver list for raster output and a non-empty
  extension) the call returns the empty name and emits the \<open>CE_Failure\<close> error only.
  A debug entry is emitted on every other path and on no failure path.
\<close>

theorem C10_failure_path:
  "(GetOutputDriversFor w dest GDAL_OF_RASTER = [] \<and> CPLGetExtension dest \<noteq> [] \<longrightarrow>
      fst (GetOutputDriverForRaster dest w) = [] \<and>
      emitted w (snd (GetOutputDriverForRaster dest w)) =
        [Error CE_Failure CPLE_AppDefined (''Cannot guess driver for '' @ dest)]) \<and>
   ((\<exists>c m. Debug c m \<in> set (emitted w (snd (GetOutputDriverForRaster dest w)))) \<longleftrightarrow>
      \<not> (GetOutputDriversFor w dest GDAL_OF_RASTER = [] \<and> CPLGetExtension dest \<noteq> []))"
proof (intro conjI impI)
  assume h: "GetOutputDriversFor w dest GDAL_OF_RASTER = [] \<and> CPLGetExtension dest \<noteq> []"
  then show "fst (GetOutputDriverForRaster dest w) = []"
    by (simp add: raster_result [OF refl])
  from h show "emitted w (snd (GetOutputDriverForRaster dest w)) =
      [Error CE_Failure CPLE_AppDefined (''Cannot guess driver for '' @ dest)]"
    by (simp add: raster_emitted [OF refl])
next
  show "(\<exists>c m. Debug c m \<in> set (emitted w (snd (GetOutputDriverForRaster dest w)))) \<longleftrightarrow>
      \<not> (GetOutputDriversFor w dest GDAL_OF_RASTER = [] \<and> CPLGetExtension dest \<noteq> [])"
    by (auto simp add: raster_emitted [OF refl])
qed

theorem C10_failure_path_witness:
  "GetOutputDriversFor (worldOf [rasterDriver ''DriverA'' [''foo'']]) ''out.xyz''
     GDAL_OF_RASTER = [] \<and>
   CPLGetExtension ''out.xyz'' \<noteq> [] \<and>
   fst (GetOutputDriverForRaster ''out.xyz'' (worldOf [rasterDriver ''DriverA'' [''foo'']])) = [] \<and>
   emitted (worldOf [rasterDriver ''DriverA'' [''foo'']])
     (snd (GetOutputDriverForRaster ''out.xyz'' (worldOf [rasterDriver ''DriverA'' [''foo'']]))) =
     [Error CE_Failure CPLE_AppDefined ''Cannot guess driver for out.xyz'']"
proof -
  let ?w = "worldOf [rasterDriver ''DriverA'' [''foo'']]"
  have a: "GetOutputDriversFor ?w ''out.xyz'' GDAL_OF_RASTER = []"
    by (simp add: eval_defs)
  have b: "CPLGetExtension ''out.xyz'' \<noteq> []"
    by (simp add: eval_defs)
  from a b C10_failure_path [of ?w "''out.xyz''"] show ?thesis
    by simp
qed




section \<open>The claims about GetOutputDriversFor\<close>

text \<open>
  C2. As the claim stands (every case variant of \<open>.shp.zip\<close> gives the extension
  \<open>shp.zip\<close>) it fails on the code: lines 76-77 and 82-83 test two spellings only.
  What holds: a filename that ends in \<open>.shp.zip\<close> or in \<open>.SHP.ZIP\<close> is matched with the
  extension \<open>shp.zip\<close>; one that ends in \<open>.gpkg.zip\<close> or in \<open>.GPKG.ZIP\<close> with the
  extension \<open>gpkg.zip\<close>; a filename with none of these four endings is matched with
  the plain result of \<open>CPLGetExtension\<close>.
\<close>

theorem C2_compound_zip:
  "(endsWith f ''.shp.zip'' \<or> endsWith f ''.SHP.ZIP'' \<longrightarrow> osExtOf f = ''shp.zip'') \<and>
   (endsWith f ''.gpkg.zip'' \<or> endsWith f ''.GPKG.ZIP'' \<longrightarrow> osExtOf f = ''gpkg.zip'') \<and>
   (\<not> endsWith f ''.shp.zip'' \<and> \<not> endsWith f ''.SHP.ZIP'' \<and>
    \<not> endsWith f ''.gpkg.zip'' \<and> \<not> endsWith f ''.GPKG.ZIP'' \<longrightarrow>
      osExtOf f = CPLGetExtension f)"
proof (intro conjI impI)
  assume h: "endsWith f ''.shp.zip'' \<or> endsWith f ''.SHP.ZIP''"
  then have "CPLGetExtension f = ''zip''"
    by (auto simp: endsWith_iff CPLGetExtension_zip)
  with h show "osExtOf f = ''shp.zip''"
    by (simp add: osExtOf_def EQUAL_def)
next
  assume h: "endsWith f ''.gpkg.zip'' \<or> endsWith f ''.GPKG.ZIP''"
  then have x: "CPLGetExtension f = ''zip''"
    by (auto simp: endsWith_iff CPLGetExtension_zip)
  from h have "\<not> endsWith f ''.shp.zip'' \<and> \<not> endsWith f ''.SHP.ZIP''"
    using not_shp_if_gpkg by (auto simp: endsWith_iff [of f "''.gpkg.zip''"]
        endsWith_iff [of f "''.GPKG.ZIP''"])
  with h x show "osExtOf f = ''gpkg.zip''"
    by (simp add: osExtOf_def EQUAL_def)
next
  assume "\<not> endsWith f ''.shp.zip'' \<and> \<not> endsWith f ''.SHP.ZIP'' \<and>
    \<not> endsWith f ''.gpkg.zip'' \<and> \<not> endsWith f ''.GPKG.ZIP''"
  then show "osExtOf f = CPLGetExtension f"
    by (simp add: osExtOf_def)
qed

theorem C2_compound_zip_witness:
  "endsWith ''out.SHP.ZIP'' ''.SHP.ZIP'' \<and> osExtOf ''out.SHP.ZIP'' = ''shp.zip'' \<and>
   endsWith ''dir/out.gpkg.zip'' ''.gpkg.zip'' \<and> osExtOf ''dir/out.gpkg.zip'' = ''gpkg.zip'' \<and>
   osExtOf ''out.tif'' = CPLGetExtension ''out.tif''"
proof -
  have a: "endsWith ''out.SHP.ZIP'' ''.SHP.ZIP''"
    by (simp add: endsWith_def)
  have b: "endsWith ''dir/out.gpkg.zip'' ''.gpkg.zip''"
    by (simp add: endsWith_def)
  have c: "\<not> endsWith ''out.tif'' ''.shp.zip'' \<and> \<not> endsWith ''out.tif'' ''.SHP.ZIP'' \<and>
      \<not> endsWith ''out.tif'' ''.gpkg.zip'' \<and> \<not> endsWith ''out.tif'' ''.GPKG.ZIP''"
    by (simp add: endsWith_def)
  from a b c C2_compound_zip [of "''out.SHP.ZIP''"] C2_compound_zip [of "''dir/out.gpkg.zip''"]
    C2_compound_zip [of "''out.tif''"]
  show ?thesis
    by blast
qed

theorem C2_mixed_case_counterexample:
  "EQUAL (drop 1 ''a.SHP.Zip'') ''.shp.zip'' \<and>
   osExtOf ''a.SHP.Zip'' \<noteq> ''shp.zip'' \<and>
   EQUAL (osExtOf ''a.SHP.Zip'') ''zip''"
  by (simp add: eval_defs)

text \<open>
  C3. As the claim stands (the rule fires only for the exact list \<open>GMT\<close>, \<open>NETCDF\<close>) it
  fails on the code: lines 131-132 compare with \<open>EQUAL\<close>. What holds: the result differs
  from the list of line 128 if and only if the extension equals \<open>nc\<close> up to case and
  that list has exactly two entries, the first equal to \<open>GMT\<close> and the second equal to
  \<open>NETCDF\<close> up to case; the result is then the list \<open>NETCDF\<close>, \<open>GMT\<close>, and in every
  other case it is the list of line 128 untouched.
\<close>

theorem C3_netcdf_rule:
  "(GetOutputDriversFor w dest flags \<noteq> matchedDrivers w dest flags \<longleftrightarrow>
      netcdfRule w dest flags) \<and>
   GetOutputDriversFor w dest flags =
     (if netcdfRule w dest flags then [''NETCDF'', ''GMT'']
      else matchedDrivers w dest flags)"
proof
  show "GetOutputDriversFor w dest flags \<noteq> matchedDrivers w dest flags \<longleftrightarrow>
      netcdfRule w dest flags"
  proof (cases "netcdfRule w dest flags")
    case True
    from netcdfRule_changes [OF True] True show ?thesis
      by (simp add: GetOutputDriversFor_cases)
  next
    case False
    then show ?thesis
      by (simp add: GetOutputDriversFor_cases)
  qed
next
  show "GetOutputDriversFor w dest flags =
     (if netcdfRule w dest flags then [''NETCDF'', ''GMT'']
      else matchedDrivers w dest flags)"
    by (rule GetOutputDriversFor_cases)
qed

theorem C3_netcdf_rule_witness:
  "netcdfRule (worldOf [rasterDriver ''GMT'' [''nc''], rasterDriver ''NETCDF'' [''nc'']])
     ''out.NC'' GDAL_OF_RASTER \<and>
   GetOutputDriversFor (worldOf [rasterDriver ''GMT'' [''nc''], rasterDriver ''NETCDF'' [''nc'']])
     ''out.NC'' GDAL_OF_RASTER = [''NETCDF'', ''GMT''] \<and>
   \<not> netcdfRule (worldOf [rasterDriver ''NETCDF'' [''nc''], rasterDriver ''GMT'' [''nc'']])
     ''out.nc'' GDAL_OF_RASTER \<and>
   GetOutputDriversFor (worldOf [rasterDriver ''NETCDF'' [''nc''], rasterDriver ''GMT'' [''nc'']])
     ''out.nc'' GDAL_OF_RASTER =
   matchedDrivers (worldOf [rasterDriver ''NETCDF'' [''nc''], rasterDriver ''GMT'' [''nc'']])
     ''out.nc'' GDAL_OF_RASTER"
proof -
  have a: "netcdfRule (worldOf [rasterDriver ''GMT'' [''nc''], rasterDriver ''NETCDF'' [''nc'']])
      ''out.NC'' GDAL_OF_RASTER"
    by (simp add: netcdfRule_def eval_defs)
  have b: "\<not> netcdfRule (worldOf [rasterDriver ''NETCDF'' [''nc''], rasterDriver ''GMT'' [''nc'']])
      ''out.nc'' GDAL_OF_RASTER"
    by (simp add: netcdfRule_def eval_defs)
  from a b
    C3_netcdf_rule [of "worldOf [rasterDriver ''GMT'' [''nc''], rasterDriver ''NETCDF'' [''nc'']]"
      "''out.NC''" GDAL_OF_RASTER]
    C3_netcdf_rule [of "worldOf [rasterDriver ''NETCDF'' [''nc''], rasterDriver ''GMT'' [''nc'']]"
      "''out.nc''" GDAL_OF_RASTER]
  show ?thesis
    by simp
qed

theorem C3_netCDF_name_counterexample:
  "osExtOf ''out.nc'' = ''nc'' \<and>
   matchedDrivers (worldOf [rasterDriver ''GMT'' [''nc''], rasterDriver ''netCDF'' [''nc'']])
     ''out.nc'' GDAL_OF_RASTER = [''GMT'', ''netCDF''] \<and>
   [''GMT'', ''netCDF''] \<noteq> [''GMT'', ''NETCDF''] \<and>
   GetOutputDriversFor (worldOf [rasterDriver ''GMT'' [''nc''], rasterDriver ''netCDF'' [''nc'']])
     ''out.nc'' GDAL_OF_RASTER = [''NETCDF'', ''GMT'']"
  by (simp add: eval_defs)






text \<open>
  C7. As the claim stands (the result always keeps the registry order) it fails on the
  code: the netCDF rule of lines 131-137 puts \<open>NETCDF\<close> before \<open>GMT\<close>. What holds: the
  list of line 128 is always a subsequence of the registry's short names; the result is
  that list, hence in registry order, unless the netCDF rule fires, and then it is the list
  \<open>NETCDF\<close>, \<open>GMT\<close>; when the short names of the registry are pairwise different, no
  name occurs twice in the result. The function has no failing path: it returns a list,
  possibly the empty one, for every registry, destination and request.
\<close>

theorem C7_order_and_duplicates:
  "subseq (matchedDrivers w dest flags) (map ShortName (registry w)) \<and>
   (subseq (GetOutputDriversFor w dest flags) (map ShortName (registry w)) \<or>
    (netcdfRule w dest flags \<and> GetOutputDriversFor w dest flags = [''NETCDF'', ''GMT''])) \<and>
   (distinct (map ShortName (registry w)) \<longrightarrow> distinct (GetOutputDriversFor w dest flags))"
proof (intro conjI impI)
  show sub: "subseq (matchedDrivers w dest flags) (map ShortName (registry w))"
    by (simp add: matchedDrivers_filter subseq_map)
  then show "subseq (GetOutputDriversFor w dest flags) (map ShortName (registry w)) \<or>
      (netcdfRule w dest flags \<and> GetOutputDriversFor w dest flags = [''NETCDF'', ''GMT''])"
    by (simp add: GetOutputDriversFor_cases)
next
  assume "distinct (map ShortName (registry w))"
  then have "distinct (matchedDrivers w dest flags)"
    by (simp add: matchedDrivers_filter distinct_map_filter)
  then show "distinct (GetOutputDriversFor w dest flags)"
    by (simp add: GetOutputDriversFor_cases)
qed

theorem C7_order_and_duplicates_witness:
  "distinct (map ShortName
     (registry (worldOf [rasterDriver ''PNG'' [''png''], rasterDriver ''GTiff'' [''tif''],
                         rasterDriver ''COG'' [''tif'']]))) \<and>
   GetOutputDriversFor
     (worldOf [rasterDriver ''PNG'' [''png''], rasterDriver ''GTiff'' [''tif''],
               rasterDriver ''COG'' [''tif'']]) ''out.tif'' GDAL_OF_RASTER = [''GTiff'', ''COG''] \<and>
   distinct (GetOutputDriversFor
     (worldOf [rasterDriver ''PNG'' [''png''], rasterDriver ''GTiff'' [''tif''],
               rasterDriver ''COG'' [''tif'']]) ''out.tif'' GDAL_OF_RASTER)"
proof -
  have a: "distinct (map ShortName
     (registry (worldOf [rasterDriver ''PNG'' [''png''], rasterDriver ''GTiff'' [''tif''],
                         rasterDriver ''COG'' [''tif'']])))"
    by (simp add: worldOf_def rasterDriver_def)
  have b: "GetOutputDriversFor
     (worldOf [rasterDriver ''PNG'' [''png''], rasterDriver ''GTiff'' [''tif''],
               rasterDriver ''COG'' [''tif'']]) ''out.tif'' GDAL_OF_RASTER = [''GTiff'', ''COG'']"
    by (simp add: eval_defs)
  from a
    C7_order_and_duplicates [of "worldOf [rasterDriver ''PNG'' [''png''],
      rasterDriver ''GTiff'' [''tif''], rasterDriver ''COG'' [''tif'']]" "''out.tif''"
      GDAL_OF_RASTER]
  have "distinct (GetOutputDriversFor
     (worldOf [rasterDriver ''PNG'' [''png''], rasterDriver ''GTiff'' [''tif''],
               rasterDriver ''COG'' [''tif'']]) ''out.tif'' GDAL_OF_RASTER)"
    by blast
  with a b show ?thesis
    by (intro conjI)
qed

theorem C7_netcdf_order_counterexample:
  "map ShortName
     (registry (worldOf [rasterDriver ''GMT'' [''nc''], rasterDriver ''NETCDF'' [''nc'']])) =
     [''GMT'', ''NETCDF''] \<and>
   GetOutputDriversFor (worldOf [rasterDriver ''GMT'' [''nc''], rasterDriver ''NETCDF'' [''nc'']])
     ''out.nc'' GDAL_OF_RASTER = [''NETCDF'', ''GMT''] \<and>
   \<not> subseq
     (GetOutputDriversFor (worldOf [rasterDriver ''GMT'' [''nc''], rasterDriver ''NETCDF'' [''nc'']])
        ''out.nc'' GDAL_OF_RASTER)
     (map ShortName
        (registry (worldOf [rasterDriver ''GMT'' [''nc''], rasterDriver ''NETCDF'' [''nc'']])))"
proof -
  have a: "map ShortName
     (registry (worldOf [rasterDriver ''GMT'' [''nc''], rasterDriver ''NETCDF'' [''nc'']])) =
     [''GMT'', ''NETCDF'']"
    by (simp add: worldOf_def rasterDriver_def)
  have b: "GetOutputDriversFor
     (worldOf [rasterDriver ''GMT'' [''nc''], rasterDriver ''NETCDF'' [''nc'']])
     ''out.nc'' GDAL_OF_RASTER = [''NETCDF'', ''GMT'']"
    by (simp add: eval_defs)
  have c: "\<not> subseq [''NETCDF'', ''GMT''] [''GMT'', ''NETCDF'']"
    by simp
  from a b c show ?thesis
    by simp
qed

end
